theory Spec2Isabelle
  imports Complex_Main "HOL-Library.Sublist" "HOL-Library.Multiset"
begin

section \<open>JavaScript numbers\<close>

text \<open>
  The server computes with JavaScript \<open>number\<close> values. A division by zero does not
  raise there: it yields an infinity or \<open>NaN\<close>, which then flows through the rest of
  the computation. The model keeps these special values and takes the arithmetic on
  finite values to be exact (rounding and overflow are not modelled, and the two signed
  zeros are one value, as they are for \<open>===\<close>).
\<close>

datatype jsnum = Fin real | PInf | NInf | NaN

fun jneg :: "jsnum \<Rightarrow> jsnum" where
  "jneg (Fin a) = Fin (- a)"
| "jneg PInf = NInf"
| "jneg NInf = PInf"
| "jneg NaN = NaN"

fun jadd :: "jsnum \<Rightarrow> jsnum \<Rightarrow> jsnum" where
  "jadd NaN y = NaN"
| "jadd x NaN = NaN"
| "jadd (Fin a) (Fin b) = Fin (a + b)"
| "jadd PInf NInf = NaN"
| "jadd NInf PInf = NaN"
| "jadd PInf y = PInf"
| "jadd x PInf = PInf"
| "jadd NInf y = NInf"
| "jadd x NInf = NInf"

definition jsub :: "jsnum \<Rightarrow> jsnum \<Rightarrow> jsnum" where
  "jsub x y = jadd x (jneg y)"

text \<open>The infinity with the sign of a non-zero real.\<close>

definition inf_of_sign :: "real \<Rightarrow> jsnum" where
  "inf_of_sign s = (if 0 < s then PInf else NInf)"

fun jmul :: "jsnum \<Rightarrow> jsnum \<Rightarrow> jsnum" where
  "jmul NaN y = NaN"
| "jmul x NaN = NaN"
| "jmul (Fin a) (Fin b) = Fin (a * b)"
| "jmul (Fin a) PInf = (if a = 0 then NaN else inf_of_sign a)"
| "jmul (Fin a) NInf = (if a = 0 then NaN else inf_of_sign (- a))"
| "jmul PInf (Fin b) = (if b = 0 then NaN else inf_of_sign b)"
| "jmul NInf (Fin b) = (if b = 0 then NaN else inf_of_sign (- b))"
| "jmul PInf PInf = PInf"
| "jmul PInf NInf = NInf"
| "jmul NInf PInf = NInf"
| "jmul NInf NInf = PInf"

fun jdiv :: "jsnum \<Rightarrow> jsnum \<Rightarrow> jsnum" where
  "jdiv NaN y = NaN"
| "jdiv x NaN = NaN"
| "jdiv (Fin a) (Fin b) =
     (if b \<noteq> 0 then Fin (a / b) else if a = 0 then NaN else inf_of_sign a)"
| "jdiv (Fin a) PInf = Fin 0"
| "jdiv (Fin a) NInf = Fin 0"
| "jdiv PInf (Fin b) = (if 0 \<le> b then PInf else NInf)"
| "jdiv NInf (Fin b) = (if 0 \<le> b then NInf else PInf)"
| "jdiv PInf y = NaN"
| "jdiv NInf y = NaN"

text \<open>\<open>x ** 2\<close>\<close>

definition jpow2 :: "jsnum \<Rightarrow> jsnum" where
  "jpow2 x = jmul x x"

text \<open>\<open>Math.sqrt\<close>\<close>

fun jsqrt :: "jsnum \<Rightarrow> jsnum" where
  "jsqrt (Fin a) = (if 0 \<le> a then Fin (sqrt a) else NaN)"
| "jsqrt PInf = PInf"
| "jsqrt NInf = NaN"
| "jsqrt NaN = NaN"

text \<open>Truthiness of a number: every number but zero and \<open>NaN\<close>.\<close>

fun truthy :: "jsnum \<Rightarrow> bool" where
  "truthy (Fin a) = (a \<noteq> 0)"
| "truthy NaN = False"
| "truthy _ = True"

section \<open>The regression engine: \<open>calculateFinancialMetrics\<close>\<close>

record metrics =
  beta :: jsnum
  alpha :: jsnum
  correlation :: jsnum
  rSquared :: jsnum
  volatility :: jsnum

text \<open>
  The first loop, \<open>for (let i = 1; i < stockPrices.length; i++)\<close>, pushes one return per
  index; \<open>returns_loop n prices\<close> is the vector it builds from \<open>prices\<close> when the bound
  is \<open>n\<close>. Both vectors are built under the bound \<open>stockPrices.length\<close>.
\<close>

definition returns_loop :: "nat \<Rightarrow> jsnum list \<Rightarrow> jsnum list" where
  "returns_loop n prices =
     map (\<lambda>i. jdiv (jsub (prices ! i) (prices ! (i - 1))) (prices ! (i - 1))) [1..<n]"

text \<open>\<open>xs.reduce((a, b) => a + b, 0) / n\<close>\<close>

definition mean_of :: "jsnum list \<Rightarrow> nat \<Rightarrow> jsnum" where
  "mean_of xs n = jdiv (foldl jadd (Fin 0) xs) (Fin (real n))"

text \<open>
  The second loop, over \<open>i = 0 .. n - 1\<close>, with its three accumulators
  \<open>(covariance, varianceMarket, varianceStock)\<close>, all starting at 0.
\<close>

definition sums_step ::
  "jsnum list \<Rightarrow> jsnum list \<Rightarrow> jsnum \<Rightarrow> jsnum \<Rightarrow> nat
     \<Rightarrow> jsnum \<times> jsnum \<times> jsnum \<Rightarrow> jsnum \<times> jsnum \<times> jsnum" where
  "sums_step stockReturns marketReturns meanStock meanMarket i acc =
     (case acc of (covariance, varianceMarket, varianceStock) \<Rightarrow>
        let diffS = jsub (stockReturns ! i) meanStock;
            diffM = jsub (marketReturns ! i) meanMarket
        in (jadd covariance (jmul diffS diffM),
            jadd varianceMarket (jpow2 diffM),
            jadd varianceStock (jpow2 diffS)))"

definition sums_loop ::
  "jsnum list \<Rightarrow> jsnum list \<Rightarrow> jsnum \<Rightarrow> jsnum \<Rightarrow> nat \<Rightarrow> jsnum \<times> jsnum \<times> jsnum" where
  "sums_loop stockReturns marketReturns meanStock meanMarket n =
     fold (sums_step stockReturns marketReturns meanStock meanMarket) [0..<n]
       (Fin 0, Fin 0, Fin 0)"

text \<open>The function returns \<open>null\<close> (here \<open>None\<close>) or the bundle of five numbers.\<close>

definition calculateFinancialMetrics :: "jsnum list \<Rightarrow> jsnum list \<Rightarrow> metrics option" where
  "calculateFinancialMetrics stockPrices marketPrices =
     (if length stockPrices \<noteq> length marketPrices \<or> length stockPrices < 2 then None
      else
        let stockReturns = returns_loop (length stockPrices) stockPrices;
            marketReturns = returns_loop (length stockPrices) marketPrices;
            n = length stockReturns
        in if n < 2 then None
           else
             let meanStock = mean_of stockReturns n;
                 meanMarket = mean_of marketReturns n
             in (case sums_loop stockReturns marketReturns meanStock meanMarket n of
                   (covariance, varianceMarket, varianceStock) \<Rightarrow>
                     if varianceMarket = Fin 0 \<or> varianceStock = Fin 0 then None
                     else
                       let beta = jdiv covariance varianceMarket;
                           alpha = jsub meanStock (jmul beta meanMarket);
                           correlation =
                             jdiv covariance (jmul (jsqrt varianceStock) (jsqrt varianceMarket));
                           rSquared = jpow2 correlation;
                           standardDeviation =
                             jsqrt (jdiv varianceStock (Fin (real (n - 1))));
                           volatility = jmul standardDeviation (jsqrt (Fin 252))
                       in Some \<lparr>beta = beta, alpha = alpha, correlation = correlation,
                                 rSquared = rSquared, volatility = volatility\<rparr>))"

subsection \<open>The formulas of the specification\<close>

text \<open>
  The specification describes the same computation by formulas over the two vectors of
  simple returns. The definitions below follow its wording; the theorems compare them
  with the loops above.
\<close>










section \<open>Aligning two price series\<close>

text \<open>
  A row of a price history, as the provider returns it: the calendar date of the row
  (the key \<open>d.date.toISOString().split('T')[0]\<close>) and its close, which may be missing.
\<close>

record row =
  date :: string
  close :: "jsnum option"

text \<open>\<open>if (x) ...\<close> on a value that is a number, \<open>null\<close> or \<open>undefined\<close>.\<close>

fun truthy_opt :: "jsnum option \<Rightarrow> bool" where
  "truthy_opt None = False"
| "truthy_opt (Some x) = truthy x"

text \<open>
  \<open>marketData.forEach(d => { if (d && d.close) dateMap.set(key, d.close); })\<close>:
  a later row of the same date replaces an earlier one. The rows are objects, so the
  test of \<open>d\<close> itself always passes.
\<close>

definition dateMap_step :: "row \<Rightarrow> (string \<rightharpoonup> jsnum) \<Rightarrow> (string \<rightharpoonup> jsnum)" where
  "dateMap_step d dateMap =
     (case close d of
        Some c \<Rightarrow> if truthy c then dateMap(date d \<mapsto> c) else dateMap
      | None \<Rightarrow> dateMap)"

definition build_dateMap :: "row list \<Rightarrow> (string \<rightharpoonup> jsnum)" where
  "build_dateMap marketData = fold dateMap_step marketData Map.empty"

text \<open>
  \<open>stockData.forEach(d => { const mPrice = dateMap.get(key);
  if (mPrice && d.close) { sPrices.push(d.close); mPrices.push(mPrice); } })\<close>
\<close>

definition align_step ::
  "(string \<rightharpoonup> jsnum) \<Rightarrow> row \<Rightarrow> jsnum list \<times> jsnum list \<Rightarrow> jsnum list \<times> jsnum list" where
  "align_step dateMap d acc =
     (case acc of (sPrices, mPrices) \<Rightarrow>
        (case (dateMap (date d), close d) of
           (Some mPrice, Some c) \<Rightarrow>
             if truthy mPrice \<and> truthy c then (sPrices @ [c], mPrices @ [mPrice])
             else (sPrices, mPrices)
         | _ \<Rightarrow> (sPrices, mPrices)))"

definition align_prices :: "(string \<rightharpoonup> jsnum) \<Rightarrow> row list \<Rightarrow> jsnum list \<times> jsnum list" where
  "align_prices dateMap stockData = fold (align_step dateMap) stockData ([], [])"

subsection \<open>The join of the specification\<close>

definition valid_close :: "row \<Rightarrow> bool" where
  "valid_close d = (\<exists>c. close d = Some c \<and> truthy c)"

definition has_valid_close :: "row list \<Rightarrow> string \<Rightarrow> bool" where
  "has_valid_close series day = (\<exists>d \<in> set series. date d = day \<and> valid_close d)"

text \<open>The rows of the primary series that have a partner in the reference series.\<close>

definition joined_rows :: "row list \<Rightarrow> row list \<Rightarrow> row list" where
  "joined_rows primary reference =
     filter (\<lambda>d. valid_close d \<and> has_valid_close reference (date d)) primary"

text \<open>The close the reference series contributes for a day: that of its last valid row.\<close>

definition reference_close :: "row list \<Rightarrow> string \<Rightarrow> jsnum option" where
  "reference_close reference day =
     (let ds = filter (\<lambda>d. date d = day \<and> valid_close d) reference
      in if ds = [] then None else close (last ds))"

section \<open>Answers of the market data provider\<close>

text \<open>
  What the server reads from the provider's answers. A field that is missing, \<open>null\<close> or
  \<open>undefined\<close> is \<open>None\<close>. Monetary values and ratios arrive as JSON numbers and are
  finite; the code never divides by one of them without testing it first, so they are
  modelled as real numbers.
\<close>

record quote =
  q_currency :: "string option"
  q_marketCap :: "real option"
  q_longName :: "string option"
  q_shortName :: "string option"
  q_regularMarketPrice :: "real option"

record assetProfile =
  ap_industry :: "string option"
  ap_sector :: "string option"

record summaryDetail =
  sd_marketCap :: "real option"
  sd_trailingPE :: "real option"
  sd_dividendYield :: "real option"

record financialData =
  fd_financialCurrency :: "string option"
  fd_totalRevenue :: "real option"
  fd_ebitda :: "real option"
  fd_debtToEquity :: "real option"
  fd_profitMargins :: "real option"

record defaultKeyStatistics =
  ks_enterpriseValue :: "real option"
  ks_priceToBook :: "real option"

record quoteSummary =
  assetProfile :: "assetProfile option"
  summaryDetail :: "summaryDetail option"
  financialData :: "financialData option"
  defaultKeyStatistics :: "defaultKeyStatistics option"

text \<open>
  One answer per call site and symbol; \<open>None\<close> is a failed call (every such call is
  guarded by \<open>.catch(() => null)\<close> or by the \<open>try\<close> of \<open>fetchHistoricalData\<close>). The
  only unguarded call is \<open>recommendationsBySymbol\<close>: there \<open>None\<close> is the exception,
  and an answer without a list of symbols is the empty list.
\<close>

record provider =
  historical :: "string \<Rightarrow> row list option"
  quote_of :: "string \<Rightarrow> quote option"
  fundamentals :: "string \<Rightarrow> quoteSummary option"
  profile_of :: "string \<Rightarrow> quoteSummary option"
  recommendationsBySymbol :: "string \<Rightarrow> string list option"
  candidateSummary :: "string \<Rightarrow> quoteSummary option"
  candidateQuote :: "string \<Rightarrow> quote option"
  peerHistorical :: "string \<Rightarrow> row list option"
  peerQuote :: "string \<Rightarrow> quote option"
  peerFundamentals :: "string \<Rightarrow> quoteSummary option"

text \<open>A row of the industry directory (\<open>industryList\<close>).\<close>

record directoryEntry =
  e_symbol :: string
  e_name :: string
  e_industry :: string

subsection \<open>JavaScript idioms\<close>

text \<open>\<open>x || d\<close> on an optional string: the empty string is falsy.\<close>

fun str_or :: "string option \<Rightarrow> string \<Rightarrow> string" where
  "str_or None d = d"
| "str_or (Some s) d = (if s = [] then d else s)"

text \<open>\<open>if (x)\<close> on an optional string.\<close>

fun truthy_str :: "string option \<Rightarrow> bool" where
  "truthy_str None = False"
| "truthy_str (Some s) = (s \<noteq> [])"

text \<open>\<open>x || d\<close> and \<open>if (x)\<close> on an optional finite number: zero is falsy.\<close>

fun num_or :: "real option \<Rightarrow> real \<Rightarrow> real" where
  "num_or None d = d"
| "num_or (Some x) d = (if x = 0 then d else x)"

fun truthy_num :: "real option \<Rightarrow> bool" where
  "truthy_num None = False"
| "truthy_num (Some x) = (x \<noteq> 0)"

text \<open>\<open>s.split('.')[0]\<close>\<close>

definition split_dot_first :: "string \<Rightarrow> string" where
  "split_dot_first s = takeWhile (\<lambda>c. c \<noteq> CHR ''.'') s"

text \<open>\<open>Array.from(new Set(xs))\<close>: the first occurrence of each element, in order.\<close>

definition set_order :: "string list \<Rightarrow> string list" where
  "set_order xs = fold (\<lambda>x seen. if x \<in> set seen then seen else seen @ [x]) xs []"

text \<open>\<open>xs.filter(p => p !== null)\<close>\<close>

definition non_null :: "'a option list \<Rightarrow> 'a list" where
  "non_null xs = map the (filter (\<lambda>p. p \<noteq> None) xs)"

text \<open>
  \<open>xs.sort(cmp)\<close>. The sort is stable; for a comparator that orders by a key its result
  is that of the stable insertion sort below, where \<open>x\<close> stays in front of \<open>y\<close> unless
  \<open>cmp x y > 0\<close>.
\<close>

fun insert_cmp :: "('a \<Rightarrow> 'a \<Rightarrow> real) \<Rightarrow> 'a \<Rightarrow> 'a list \<Rightarrow> 'a list" where
  "insert_cmp cmp x [] = [x]"
| "insert_cmp cmp x (y # ys) =
     (if cmp x y \<le> 0 then x # y # ys else y # insert_cmp cmp x ys)"

definition js_sort :: "('a \<Rightarrow> 'a \<Rightarrow> real) \<Rightarrow> 'a list \<Rightarrow> 'a list" where
  "js_sort cmp xs = foldr (insert_cmp cmp) xs []"

section \<open>Peer discovery: \<open>getPeers\<close>\<close>

record peer =
  slug :: string
  sector :: string
  marketCap :: real

text \<open>The body of the \<open>map\<close> over the candidates: \<open>null\<close> or the verified peer.\<close>

definition verifyPeer ::
  "provider \<Rightarrow> directoryEntry list \<Rightarrow> string \<Rightarrow> string \<Rightarrow> string option \<Rightarrow> real
     \<Rightarrow> string \<Rightarrow> peer option" where
  "verifyPeer P industryList ticker targetIndustry excelIndustry exchangeRate symbol =
     (case candidateSummary P symbol of
        None \<Rightarrow> None
      | Some s \<Rightarrow>
          (case assetProfile s of
             None \<Rightarrow> None
           | Some profile \<Rightarrow>
               if symbol = ticker then None
               else
                 let isSameIndustry =
                       (ap_industry profile = Some targetIndustry
                        \<or> (truthy_str excelIndustry
                            \<and> map_option e_industry
                                 (find (\<lambda>item. e_symbol item = split_dot_first symbol)
                                    industryList) = excelIndustry))
                 in if \<not> isSameIndustry then None
                    else
                      let quote = candidateQuote P symbol;
                          peerCurrency =
                            str_or (Option.bind quote q_currency)
                              (str_or (Option.bind (financialData s) fd_financialCurrency)
                                 ''INR'');
                          peerConversionFactor =
                            (if peerCurrency = ''USD'' then exchangeRate else 1);
                          peerMarketCap =
                            num_or (Option.bind (summaryDetail s) sd_marketCap) 0
                              * peerConversionFactor
                      in Some \<lparr>slug = symbol,
                               sector = str_or (ap_sector profile) ''Unknown'' @ '' > ''
                                 @ str_or (ap_industry profile) ''Unknown'',
                               marketCap = peerMarketCap\<rparr>))"

text \<open>
  \<open>getPeers\<close>. Every way out is a list: the early \<open>return []\<close> when the target has no
  profile, the \<open>catch\<close> around the whole body (reached when the recommender throws),
  and the ranked list cut to ten.
\<close>

definition getPeers ::
  "provider \<Rightarrow> directoryEntry list \<Rightarrow> string \<Rightarrow> real \<Rightarrow> peer list" where
  "getPeers P industryList ticker exchangeRate =
     (case Option.bind (profile_of P ticker) assetProfile of
        None \<Rightarrow> []
      | Some profile \<Rightarrow>
          let targetIndustry = str_or (ap_industry profile) [];
              tickerBase = split_dot_first ticker;
              excelMatch = find (\<lambda>i. e_symbol i = tickerBase) industryList;
              excelIndustry = map_option e_industry excelMatch
          in (case recommendationsBySymbol P ticker of
                None \<Rightarrow> []
              | Some recommended \<Rightarrow>
                  let candidateSymbols =
                        (if truthy_str excelIndustry
                         then
                           let industryPeers =
                                 map (\<lambda>item. e_symbol item @ ''.NS'')
                                   (filter (\<lambda>item. Some (e_industry item) = excelIndustry
                                                     \<and> e_symbol item \<noteq> tickerBase)
                                      industryList)
                           in set_order (recommended @ industryPeers)
                         else recommended);
                      verifiedPeers =
                        map (verifyPeer P industryList ticker targetIndustry excelIndustry
                               exchangeRate)
                          (take 20 candidateSymbols)
                  in take 10
                       (js_sort (\<lambda>a b. marketCap b - marketCap a)
                          (non_null verifiedPeers))))"

section \<open>The analysis route\<close>

datatype exchange = NSE | BSE


text \<open>
  The target's part of the response and one peer's part. The fields carry the names of
  the response's keys behind \<open>t_\<close> and \<open>p_\<close>. An \<open>undefined\<close> or \<open>null\<close> value is
  \<open>None\<close>.
\<close>

record targetData =
  t_ticker :: string
  t_name :: string
  t_marketIndex :: string
  t_beta :: jsnum
  t_volatility :: jsnum
  t_alpha :: jsnum
  t_correlation :: jsnum
  t_rSquared :: jsnum
  t_period :: string
  t_marketCap :: real
  t_revenue :: real
  t_enterpriseValue :: real
  t_evRevenueMultiple :: "real option"
  t_peRatio :: "real option"
  t_pbRatio :: "real option"
  t_dividendYield :: "real option"
  t_ebitda :: real
  t_debtToEquity :: "real option"
  t_profitMargin :: "real option"

record peerResult =
  p_ticker :: string
  p_name :: string
  p_beta :: "jsnum option"
  p_volatility :: "jsnum option"
  p_alpha :: "jsnum option"
  p_correlation :: "jsnum option"
  p_rSquared :: "jsnum option"
  p_marketCap :: real
  p_revenue :: real
  p_enterpriseValue :: real
  p_evRevenueMultiple :: "real option"
  p_peRatio :: "real option"
  p_pbRatio :: "real option"
  p_dividendYield :: "real option"
  p_ebitda :: real
  p_debtToEquity :: "real option"
  p_profitMargin :: "real option"
  p_sector :: string


text \<open>
  \<open>quote?.currency || 'INR'\<close>, \<open>financials?.financialData?.financialCurrency ||
  tradingCurrency\<close> and \<open>currency === 'USD' ? exchangeRate : 1\<close>, as the route computes
  them for the target and again for each peer.
\<close>

definition tradingCurrency_of :: "quote option \<Rightarrow> string" where
  "tradingCurrency_of quote = str_or (Option.bind quote q_currency) ''INR''"

definition financialCurrency_of :: "quote option \<Rightarrow> quoteSummary option \<Rightarrow> string" where
  "financialCurrency_of quote financials =
     str_or (Option.bind (Option.bind financials financialData) fd_financialCurrency)
       (tradingCurrency_of quote)"

definition usd_factor :: "string \<Rightarrow> real \<Rightarrow> real" where
  "usd_factor currency exchangeRate = (if currency = ''USD'' then exchangeRate else 1)"

text \<open>
  \<open>(ev && rev) ? ev / (rev * financialFactor / priceFactor) : undefined\<close>. Both factors
  are the exchange rate or 1, and the exchange rate is never zero (see \<open>exchangeRate_of\<close>).
\<close>

definition evRevenueMultiple_of ::
  "real option \<Rightarrow> real option \<Rightarrow> real \<Rightarrow> real \<Rightarrow> real option" where
  "evRevenueMultiple_of enterpriseValue totalRevenue financialFactor priceFactor =
     (if truthy_num enterpriseValue \<and> truthy_num totalRevenue
      then Some (the enterpriseValue / (the totalRevenue * financialFactor / priceFactor))
      else None)"

definition targetData_of ::
  "string \<Rightarrow> string \<Rightarrow> exchange \<Rightarrow> string option \<Rightarrow> metrics \<Rightarrow> quote option
     \<Rightarrow> quoteSummary option \<Rightarrow> real \<Rightarrow> targetData" where
  "targetData_of fullTicker ticker exch period metrics quote financials exchangeRate =
     (let tradingCurrency = tradingCurrency_of quote;
          financialCurrency = financialCurrency_of quote financials;
          priceFactor = usd_factor tradingCurrency exchangeRate;
          financialFactor = usd_factor financialCurrency exchangeRate;
          fd = Option.bind financials financialData;
          ks = Option.bind financials defaultKeyStatistics;
          sd = Option.bind financials summaryDetail
      in \<lparr>t_ticker = fullTicker,
          t_name = str_or (Option.bind quote q_longName)
                     (str_or (Option.bind quote q_shortName) ticker),
          t_marketIndex = (if exch = NSE then ''NIFTY 50'' else ''BSE SENSEX''),
          t_beta = beta metrics,
          t_volatility = volatility metrics,
          t_alpha = alpha metrics,
          t_correlation = correlation metrics,
          t_rSquared = rSquared metrics,
          t_period = str_or period ''5Y'',
          t_marketCap = num_or (Option.bind quote q_marketCap) 0 * priceFactor,
          t_revenue = num_or (Option.bind fd fd_totalRevenue) 0 * financialFactor,
          t_enterpriseValue = num_or (Option.bind ks ks_enterpriseValue) 0 * priceFactor,
          t_evRevenueMultiple =
            evRevenueMultiple_of (Option.bind ks ks_enterpriseValue)
              (Option.bind fd fd_totalRevenue) financialFactor priceFactor,
          t_peRatio = Option.bind sd sd_trailingPE,
          t_pbRatio = Option.bind ks ks_priceToBook,
          t_dividendYield = Option.bind sd sd_dividendYield,
          t_ebitda = num_or (Option.bind fd fd_ebitda) 0 * financialFactor,
          t_debtToEquity = Option.bind fd fd_debtToEquity,
          t_profitMargin = Option.bind fd fd_profitMargins\<rparr>)"

text \<open>
  The body of the \<open>map\<close> over \<open>peerList\<close>: \<open>null\<close> when the peer's history is missing or
  shorter than two rows, else the peer's part of the response. \<open>pMet?.beta ?? null\<close> is
  \<open>null\<close> exactly when \<open>pMet\<close> is.
\<close>

definition peerResult_of ::
  "provider \<Rightarrow> (string \<rightharpoonup> jsnum) \<Rightarrow> real \<Rightarrow> peer \<Rightarrow> peerResult option" where
  "peerResult_of P dateMap exchangeRate peer =
     (let pData = peerHistorical P (slug peer);
          pQuote = peerQuote P (slug peer);
          pFin = peerFundamentals P (slug peer)
      in case pData of
           None \<Rightarrow> None
         | Some rows \<Rightarrow>
             if length rows < 2 then None
             else
               (case align_prices dateMap rows of (pSPrices, pMPrices) \<Rightarrow>
                  let pMet = calculateFinancialMetrics pSPrices pMPrices;
                      pTradingCurr = tradingCurrency_of pQuote;
                      pFinancialCurr = financialCurrency_of pQuote pFin;
                      pPriceFact = usd_factor pTradingCurr exchangeRate;
                      pFinancialFact = usd_factor pFinancialCurr exchangeRate;
                      fd = Option.bind pFin financialData;
                      ks = Option.bind pFin defaultKeyStatistics;
                      sd = Option.bind pFin summaryDetail
                  in Some \<lparr>p_ticker = slug peer,
                       p_name = str_or (Option.bind pQuote q_shortName) (slug peer),
                       p_beta = map_option beta pMet,
                       p_volatility = map_option volatility pMet,
                       p_alpha = map_option alpha pMet,
                       p_correlation = map_option correlation pMet,
                       p_rSquared = map_option rSquared pMet,
                       p_marketCap = num_or (Option.bind pQuote q_marketCap) 0 * pPriceFact,
                       p_revenue = num_or (Option.bind fd fd_totalRevenue) 0 * pFinancialFact,
                       p_enterpriseValue =
                         num_or (Option.bind ks ks_enterpriseValue) 0 * pPriceFact,
                       p_evRevenueMultiple =
                         evRevenueMultiple_of (Option.bind ks ks_enterpriseValue)
                           (Option.bind fd fd_totalRevenue) pFinancialFact pPriceFact,
                       p_peRatio = Option.bind sd sd_trailingPE,
                       p_pbRatio = Option.bind ks ks_priceToBook,
                       p_dividendYield = Option.bind sd sd_dividendYield,
                       p_ebitda = num_or (Option.bind fd fd_ebitda) 0 * pFinancialFact,
                       p_debtToEquity = Option.bind fd fd_debtToEquity,
                       p_profitMargin = Option.bind fd fd_profitMargins,
                       p_sector = sector peer\<rparr>))"


text \<open>
  \<open>peerResults.filter(p => p !== null).sort((a, b) => (b?.marketCap || 0) -
  (a?.marketCap || 0))\<close>
\<close>

definition finalPeers_of ::
  "provider \<Rightarrow> (string \<rightharpoonup> jsnum) \<Rightarrow> real \<Rightarrow> peer list \<Rightarrow> peerResult list" where
  "finalPeers_of P dateMap exchangeRate peerList =
     js_sort (\<lambda>a b. num_or (Some (p_marketCap b)) 0 - num_or (Some (p_marketCap a)) 0)
       (non_null (map (peerResult_of P dateMap exchangeRate) peerList))"


subsection \<open>Notions used to state the properties of discovery\<close>

text \<open>\<open>excelMatch?.industry\<close> for the target.\<close>

definition excelIndustry_of :: "directoryEntry list \<Rightarrow> string \<Rightarrow> string option" where
  "excelIndustry_of industryList ticker =
     map_option e_industry
       (find (\<lambda>i. e_symbol i = split_dot_first ticker) industryList)"

text \<open>The candidate symbols, before \<open>slice(0, 20)\<close>.\<close>

definition candidateSymbols_of ::
  "directoryEntry list \<Rightarrow> string \<Rightarrow> string list \<Rightarrow> string list" where
  "candidateSymbols_of industryList ticker recommended =
     (let tickerBase = split_dot_first ticker;
          excelIndustry = excelIndustry_of industryList ticker
      in if truthy_str excelIndustry
         then
           let industryPeers =
                 map (\<lambda>item. e_symbol item @ ''.NS'')
                   (filter (\<lambda>item. Some (e_industry item) = excelIndustry
                                     \<and> e_symbol item \<noteq> tickerBase) industryList)
           in set_order (recommended @ industryPeers)
         else recommended)"

text \<open>
  \<open>verifiedPeers.filter(p => p !== null)\<close>, in discovery order, and the list after
  \<open>.sort((a, b) => b.marketCap - a.marketCap)\<close>. Both are empty when the target has no
  profile or the recommender throws.
\<close>

definition verifiedPeers_of ::
  "provider \<Rightarrow> directoryEntry list \<Rightarrow> string \<Rightarrow> real \<Rightarrow> peer list" where
  "verifiedPeers_of P industryList ticker exchangeRate =
     (case Option.bind (profile_of P ticker) assetProfile of
        None \<Rightarrow> []
      | Some profile \<Rightarrow>
          let targetIndustry = str_or (ap_industry profile) [];
              excelIndustry = excelIndustry_of industryList ticker
          in (case recommendationsBySymbol P ticker of
                None \<Rightarrow> []
              | Some recommended \<Rightarrow>
                  let candidateSymbols = candidateSymbols_of industryList ticker recommended
                  in non_null
                       (map (verifyPeer P industryList ticker targetIndustry excelIndustry
                               exchangeRate)
                          (take 20 candidateSymbols))))"

definition rankedPeers_of ::
  "provider \<Rightarrow> directoryEntry list \<Rightarrow> string \<Rightarrow> real \<Rightarrow> peer list" where
  "rankedPeers_of P industryList ticker exchangeRate =
     js_sort (\<lambda>a b. marketCap b - marketCap a)
       (verifiedPeers_of P industryList ticker exchangeRate)"

section \<open>Notions of the specification for the route\<close>

text \<open>
  \<open>normalize(value, classification, context)\<close>, in the specification's words: the value
  times the exchange rate when the currency associated with the field is USD, else the
  value unchanged.
\<close>

definition normalize_spec :: "real \<Rightarrow> string \<Rightarrow> real \<Rightarrow> real" where
  "normalize_spec v currency fxRateUsdToBase =
     (if currency = ''USD'' then v * fxRateUsdToBase else v)"


section \<open>Example data\<close>

definition example_summary :: "string \<Rightarrow> real option \<Rightarrow> quoteSummary" where
  "example_summary industry cap =
     \<lparr>assetProfile = Some \<lparr>ap_industry = Some industry, ap_sector = Some ''Technology''\<rparr>,
      summaryDetail = Some \<lparr>sd_marketCap = cap, sd_trailingPE = None,
        sd_dividendYield = None\<rparr>,
      financialData = None, defaultKeyStatistics = None\<rparr>"

definition example_quote :: "string option \<Rightarrow> real option \<Rightarrow> real option \<Rightarrow> quote" where
  "example_quote currency cap price =
     \<lparr>q_currency = currency, q_marketCap = cap, q_longName = None,
      q_shortName = Some ''Example'', q_regularMarketPrice = price\<rparr>"

text \<open>Fundamentals reported in USD: revenue 10, EBITDA 2, enterprise value as given.\<close>

definition example_financials :: "real option \<Rightarrow> quoteSummary" where
  "example_financials ev =
     \<lparr>assetProfile = None,
      summaryDetail = Some \<lparr>sd_marketCap = None, sd_trailingPE = Some 25,
        sd_dividendYield = None\<rparr>,
      financialData = Some \<lparr>fd_financialCurrency = Some ''USD'', fd_totalRevenue = Some 10,
        fd_ebitda = Some 2, fd_debtToEquity = None, fd_profitMargins = None\<rparr>,
      defaultKeyStatistics = Some \<lparr>ks_enterpriseValue = ev, ks_priceToBook = None\<rparr>\<rparr>"

definition example_metrics :: metrics where
  "example_metrics =
     \<lparr>beta = Fin 1, alpha = Fin 0, correlation = Fin 1, rSquared = Fin 1,
      volatility = Fin 2\<rparr>"

definition example_market :: "row list" where
  "example_market =
     [\<lparr>date = ''2024-01-01'', close = Some (Fin 1000)\<rparr>,
      \<lparr>date = ''2024-01-02'', close = Some (Fin 1020)\<rparr>,
      \<lparr>date = ''2024-01-03'', close = Some (Fin 1010)\<rparr>]"

text \<open>
  A provider for the examples. The target \<open>TGT.NS\<close> trades in INR and reports in USD; the
  recommender's list is a parameter. Of the candidates, \<open>AAA.NS\<close> and \<open>BBB.NS\<close> are in
  the target's industry and \<open>CCC.NS\<close> is not; \<open>DDD.NS\<close> and \<open>EEE.NS\<close> are in it too
  but carry no market capitalisation. Every quote fetch of the discovery fails. The
  history of \<open>AAA.NS\<close> shares no date with the benchmark, that of \<open>BBB.NS\<close> shares all
  three; the quote and the fundamentals of \<open>BBB.NS\<close> fail.
\<close>

definition example_provider :: "string list \<Rightarrow> provider" where
  "example_provider recommended =
     \<lparr>historical = (\<lambda>s.
        if s = ''^NSEI'' then Some example_market
        else if s = ''TGT.NS'' then
          Some [\<lparr>date = ''2024-01-01'', close = Some (Fin 100)\<rparr>,
                \<lparr>date = ''2024-01-02'', close = Some (Fin 102)\<rparr>,
                \<lparr>date = ''2024-01-03'', close = Some (Fin 101)\<rparr>]
        else None),
      quote_of = (\<lambda>s.
        if s = ''TGT.NS'' then Some (example_quote (Some ''INR'') (Some 500) None)
        else if s = ''USDINR=X'' then Some (example_quote None None (Some 80))
        else None),
      fundamentals = (\<lambda>s.
        if s = ''TGT.NS'' then Some (example_financials (Some 1600)) else None),
      profile_of = (\<lambda>s. Some (example_summary ''IT'' None)),
      recommendationsBySymbol = (\<lambda>s. Some recommended),
      candidateSummary = (\<lambda>s.
        if s = ''AAA.NS'' then Some (example_summary ''IT'' (Some 5))
        else if s = ''BBB.NS'' then Some (example_summary ''IT'' (Some 7))
        else if s = ''CCC.NS'' then Some (example_summary ''Steel'' (Some 9))
        else if s = ''TGT.NS'' then Some (example_summary ''IT'' (Some 8))
        else if s = ''DDD.NS'' \<or> s = ''EEE.NS'' then Some (example_summary ''IT'' None)
        else None),
      candidateQuote = (\<lambda>s. None),
      peerHistorical = (\<lambda>s.
        if s = ''AAA.NS'' then
          Some [\<lparr>date = ''2024-02-01'', close = Some (Fin 10)\<rparr>,
                \<lparr>date = ''2024-02-02'', close = Some (Fin 11)\<rparr>]
        else if s = ''BBB.NS'' then
          Some [\<lparr>date = ''2024-01-01'', close = Some (Fin 50)\<rparr>,
                \<lparr>date = ''2024-01-02'', close = Some (Fin 55)\<rparr>,
                \<lparr>date = ''2024-01-03'', close = Some (Fin 44)\<rparr>]
        else None),
      peerQuote = (\<lambda>s.
        if s = ''AAA.NS'' then Some (example_quote (Some ''USD'') (Some 10) None) else None),
      peerFundamentals = (\<lambda>s.
        if s = ''AAA.NS'' then Some (example_financials (Some 1600)) else None)\<rparr>"

section \<open>Properties of the regression engine\<close>

subsection \<open>The loops compute the sums of the specification\<close>

lemma jadd_commute: "jadd x y = jadd y x"
  by (cases x; cases y) simp_all



















subsection \<open>The formulas of the metrics\<close>



subsection \<open>Finite inputs\<close>


















subsection \<open>When the result is absent\<close>



subsection \<open>Non-positive prices\<close>




subsection \<open>Identical returns\<close>




section \<open>Properties of the alignment\<close>

lemma build_dateMap_snoc:
  "build_dateMap (ds @ [d]) = dateMap_step d (build_dateMap ds)"
  by (simp add: build_dateMap_def)

lemma reference_close_Nil: "reference_close [] day = None"
  by (simp add: reference_close_def)

lemma reference_close_snoc:
  "reference_close (ds @ [d]) day =
     (if date d = day \<and> valid_close d then close d else reference_close ds day)"
  by (simp add: reference_close_def Let_def)

lemma build_dateMap_reference_close: "build_dateMap ds day = reference_close ds day"
proof (induction ds rule: rev_induct)
  case Nil
  show ?case by (simp add: build_dateMap_def reference_close_Nil)
next
  case (snoc d ds)
  then show ?case
    by (auto simp: build_dateMap_snoc reference_close_snoc dateMap_step_def valid_close_def
        split: option.splits)
qed

lemma reference_close_truthy:
  "truthy_opt (reference_close ds day) = has_valid_close ds day"
proof (induction ds rule: rev_induct)
  case Nil
  show ?case by (simp add: reference_close_Nil has_valid_close_def)
next
  case (snoc d ds)
  then show ?case
    by (auto simp: reference_close_snoc has_valid_close_def valid_close_def)
qed

lemma align_step_cases:
  "align_step dateMap d (s, m) =
     (if truthy_opt (close d) \<and> truthy_opt (dateMap (date d))
      then (s @ [the (close d)], m @ [the (dateMap (date d))]) else (s, m))"
  by (cases "close d"; cases "dateMap (date d)") (simp_all add: align_step_def)

lemma align_fold:
  "fold (align_step dateMap) ds (s0, m0) =
     (s0 @ map (\<lambda>d. the (close d))
        (filter (\<lambda>d. truthy_opt (close d) \<and> truthy_opt (dateMap (date d))) ds),
      m0 @ map (\<lambda>d. the (dateMap (date d)))
        (filter (\<lambda>d. truthy_opt (close d) \<and> truthy_opt (dateMap (date d))) ds))"
proof (induction ds arbitrary: s0 m0)
  case Nil
  show ?case by simp
next
  case (Cons d ds)
  show ?case
    by (simp add: align_step_cases Cons.IH)
qed

lemma truthy_opt_valid_close: "truthy_opt (close d) = valid_close d"
  by (cases "close d") (simp_all add: valid_close_def)

lemma align_prices_joined:
  "align_prices (build_dateMap reference) primary =
     (map (\<lambda>d. the (close d)) (joined_rows primary reference),
      map (\<lambda>d. the (reference_close reference (date d))) (joined_rows primary reference))"
proof -
  have "build_dateMap reference = reference_close reference"
    by (rule ext) (rule build_dateMap_reference_close)
  then show ?thesis
    by (simp add: align_prices_def align_fold joined_rows_def truthy_opt_valid_close
        reference_close_truthy)
qed

lemma joined_rows_count:
  "length (filter (\<lambda>d. date d = day) (joined_rows primary reference)) =
     (if has_valid_close reference day
      then length (filter (\<lambda>d. date d = day \<and> valid_close d) primary) else 0)"
proof -
  have "filter (\<lambda>d. date d = day) (joined_rows primary reference) =
      filter (\<lambda>d. has_valid_close reference day \<and> date d = day \<and> valid_close d) primary"
    by (auto simp: joined_rows_def intro: filter_cong)
  then show ?thesis by simp
qed

lemma distinct_dates_count:
  assumes "distinct (map date primary)"
  shows "length (filter (\<lambda>d. date d = day \<and> valid_close d) primary) =
     (if has_valid_close primary day then 1 else 0)"
  using assms
proof (induction primary)
  case Nil
  show ?case by (simp add: has_valid_close_def)
next
  case (Cons d ds)
  then have IH: "length (filter (\<lambda>d. date d = day \<and> valid_close d) ds) =
      (if has_valid_close ds day then 1 else 0)"
    by simp
  show ?case
  proof (cases "date d = day")
    case True
    with Cons.prems have "day \<notin> set (map date ds)" by simp
    then have "\<forall>e \<in> set ds. date e \<noteq> day" by auto
    then have "\<not> has_valid_close ds day" "filter (\<lambda>d. date d = day \<and> valid_close d) ds = []"
      by (auto simp: has_valid_close_def filter_empty_conv)
    with True show ?thesis by (simp add: has_valid_close_def)
  next
    case False
    then show ?thesis using IH by (simp add: has_valid_close_def)
  qed
qed

text \<open>
  Claim C3, as the code has it. The alignment is an order-preserving inner join on the
  primary series: it emits one pair for each row of the primary series whose close is
  valid and whose calendar date has a valid close in the reference series, in the
  primary series' order, pairing it with the reference's last valid close of that date.
  A close is valid when it is present, not zero and not \<open>NaN\<close>; its sign is not
  checked. Hence a date contributes as many pairs as the primary series has valid rows
  on it, and exactly one, if and only if both series have a valid close on it, when the
  dates of the primary series are distinct.
\<close>

theorem align_inner_join:
  "align_prices (build_dateMap reference) primary =
     (map (\<lambda>d. the (close d)) (joined_rows primary reference),
      map (\<lambda>d. the (reference_close reference (date d))) (joined_rows primary reference))
   \<and> (\<forall>day. length (filter (\<lambda>d. date d = day) (joined_rows primary reference)) =
         (if has_valid_close reference day
          then length (filter (\<lambda>d. date d = day \<and> valid_close d) primary) else 0))
   \<and> (distinct (map date primary) \<longrightarrow>
        (\<forall>day. length (filter (\<lambda>d. date d = day) (joined_rows primary reference)) =
           (if has_valid_close primary day \<and> has_valid_close reference day then 1 else 0)))"
proof -
  have "length (filter (\<lambda>d. date d = day) (joined_rows primary reference)) =
      (if has_valid_close primary day \<and> has_valid_close reference day then 1 else 0)"
    if "distinct (map date primary)" for day
    by (simp add: joined_rows_count distinct_dates_count [OF that])
  then show ?thesis
    using align_prices_joined joined_rows_count by blast
qed

theorem align_inner_join_witness:
  "align_prices
     (build_dateMap [\<lparr>date = ''2024-01-01'', close = Some (Fin 1000)\<rparr>,
                     \<lparr>date = ''2024-01-02'', close = None\<rparr>,
                     \<lparr>date = ''2024-01-03'', close = Some (Fin 1010)\<rparr>])
     [\<lparr>date = ''2024-01-01'', close = Some (Fin 100)\<rparr>,
      \<lparr>date = ''2024-01-02'', close = Some (Fin 101)\<rparr>,
      \<lparr>date = ''2024-01-03'', close = Some (Fin 102)\<rparr>,
      \<lparr>date = ''2024-01-04'', close = Some (Fin 103)\<rparr>] =
     ([Fin 100, Fin 102], [Fin 1000, Fin 1010])
   \<and> length (filter (\<lambda>d. date d = ''2024-01-03'')
        (joined_rows
          [\<lparr>date = ''2024-01-01'', close = Some (Fin 100)\<rparr>,
           \<lparr>date = ''2024-01-02'', close = Some (Fin 101)\<rparr>,
           \<lparr>date = ''2024-01-03'', close = Some (Fin 102)\<rparr>,
           \<lparr>date = ''2024-01-04'', close = Some (Fin 103)\<rparr>]
          [\<lparr>date = ''2024-01-01'', close = Some (Fin 1000)\<rparr>,
           \<lparr>date = ''2024-01-02'', close = None\<rparr>,
           \<lparr>date = ''2024-01-03'', close = Some (Fin 1010)\<rparr>])) = 1"
proof -
  let ?p = "[\<lparr>date = ''2024-01-01'', close = Some (Fin 100)\<rparr>,
      \<lparr>date = ''2024-01-02'', close = Some (Fin 101)\<rparr>,
      \<lparr>date = ''2024-01-03'', close = Some (Fin 102)\<rparr>,
      \<lparr>date = ''2024-01-04'', close = Some (Fin 103)\<rparr>]"
  let ?r = "[\<lparr>date = ''2024-01-01'', close = Some (Fin 1000)\<rparr>,
                     \<lparr>date = ''2024-01-02'', close = None\<rparr>,
                     \<lparr>date = ''2024-01-03'', close = Some (Fin 1010)\<rparr>]"
  have d: "distinct (map date ?p)" by simp
  have v: "has_valid_close ?p ''2024-01-03''" "has_valid_close ?r ''2024-01-03''"
    by (simp_all add: has_valid_close_def valid_close_def)
  have j: "joined_rows ?p ?r = [\<lparr>date = ''2024-01-01'', close = Some (Fin 100)\<rparr>,
      \<lparr>date = ''2024-01-03'', close = Some (Fin 102)\<rparr>]"
    by (simp add: joined_rows_def has_valid_close_def valid_close_def)
  have rc: "reference_close ?r ''2024-01-01'' = Some (Fin 1000)"
    "reference_close ?r ''2024-01-03'' = Some (Fin 1010)"
    by (simp_all add: reference_close_def valid_close_def)
  note t = align_inner_join [of ?r ?p]
  from t have "align_prices (build_dateMap ?r) ?p = ([Fin 100, Fin 102], [Fin 1000, Fin 1010])"
    unfolding j by (simp add: rc)
  moreover have "length (filter (\<lambda>d. date d = ''2024-01-03'') (joined_rows ?p ?r)) = 1"
    using t [THEN conjunct2, THEN conjunct2, rule_format, OF d, of "''2024-01-03''"] v
    by (simp only: simp_thms if_True)
  ultimately show ?thesis by simp
qed

text \<open>
  The claim as stated fails: a negative close of the reference series is paired, and a
  date that occurs twice in the primary series yields two pairs.
\<close>

theorem align_positive_counterexample:
  "align_prices (build_dateMap [\<lparr>date = ''2024-01-01'', close = Some (Fin (- 3))\<rparr>])
     [\<lparr>date = ''2024-01-01'', close = Some (Fin 5)\<rparr>,
      \<lparr>date = ''2024-01-01'', close = Some (Fin 6)\<rparr>] =
     ([Fin 5, Fin 6], [Fin (- 3), Fin (- 3)])"
  by (simp add: align_prices_def build_dateMap_def dateMap_step_def align_step_def)

section \<open>Properties of peer discovery\<close>

lemma insert_cmp_insort_key:
  "insert_cmp (\<lambda>a b. f b - f a) x ys = insort_key (\<lambda>p. - f p) x ys"
  by (induction ys) simp_all

lemma js_sort_sort_key: "js_sort (\<lambda>a b. f b - f a) xs = sort_key (\<lambda>p. - f p) xs"
  by (induction xs) (simp_all add: js_sort_def sort_key_def insert_cmp_insort_key)

lemma js_sort_descending:
  "sorted_wrt (\<lambda>a b. f b \<le> f a) (js_sort (\<lambda>a b. f b - f a) xs)"
proof -
  have "sorted (map (\<lambda>p. - f p) (sort_key (\<lambda>p. - f p) xs))"
    by (rule sorted_sort_key)
  then show ?thesis
    by (simp add: js_sort_sort_key sorted_map)
qed

lemma js_sort_mset: "mset (js_sort (\<lambda>a b. f b - f a) xs) = mset xs"
  by (simp add: js_sort_sort_key)

lemma js_sort_set: "set (js_sort (\<lambda>a b. f b - f a) xs) = set xs"
  by (simp add: js_sort_sort_key)

lemma js_sort_stable:
  "filter (\<lambda>p. f p = k) (js_sort (\<lambda>a b. f b - f a) xs) = filter (\<lambda>p. f p = k) xs"
proof -
  have "filter (\<lambda>p. - f p = - k) (sort_key (\<lambda>p. - f p) xs) = filter (\<lambda>p. - f p = - k) xs"
    by (rule sort_key_stable)
  then show ?thesis by (simp add: js_sort_sort_key)
qed


lemma js_sort_distinct_map:
  "distinct (map g (js_sort (\<lambda>a b. f b - f a) xs)) = distinct (map g xs)"
proof -
  have "mset (map g (js_sort (\<lambda>a b. f b - f a) xs)) = mset (map g xs)"
    by (simp add: js_sort_mset)
  then show ?thesis by (rule mset_eq_imp_distinct_iff)
qed

lemma sorted_wrt_nth:
  "sorted_wrt (\<lambda>a b. f b \<le> f a) xs \<Longrightarrow> i < j \<Longrightarrow> j < length xs \<Longrightarrow> f (xs ! j) \<le> f (xs ! i)"
  by (simp add: sorted_wrt_iff_nth_less)

lemma set_order_fold_distinct:
  "distinct seen \<Longrightarrow>
     distinct (fold (\<lambda>x seen. if x \<in> set seen then seen else seen @ [x]) xs seen)"
  by (induction xs arbitrary: seen) simp_all

lemma set_order_distinct: "distinct (set_order xs)"
  by (simp add: set_order_def set_order_fold_distinct)

lemma set_order_fold_set:
  "set (fold (\<lambda>x seen. if x \<in> set seen then seen else seen @ [x]) xs seen) = set seen \<union> set xs"
  by (induction xs arbitrary: seen) auto

lemma set_order_set: "set (set_order xs) = set xs"
  by (simp add: set_order_def set_order_fold_set)

lemma verifyPeer_slug:
  "verifyPeer P industryList ticker targetIndustry excelIndustry exchangeRate symbol = Some p
     \<Longrightarrow> slug p = symbol \<and> symbol \<noteq> ticker"
  by (auto simp: verifyPeer_def Let_def split: option.splits if_splits)

lemma non_null_map_slug:
  assumes "\<And>x p. f x = Some p \<Longrightarrow> g p = x"
  shows "map g (non_null (map f xs)) = filter (\<lambda>x. f x \<noteq> None) xs"
  using assms by (induction xs) (auto simp: non_null_def)

lemma getPeers_ranked:
  "getPeers P industryList ticker exchangeRate =
     take 10 (rankedPeers_of P industryList ticker exchangeRate)"
  by (simp add: getPeers_def rankedPeers_of_def verifiedPeers_of_def candidateSymbols_of_def
      excelIndustry_of_def js_sort_def Let_def split: option.splits)

lemma verifiedPeers_slugs:
  "\<exists>cands. map slug (verifiedPeers_of P industryList ticker exchangeRate) =
      filter (\<lambda>s. s \<noteq> ticker) cands
    \<and> (truthy_str (excelIndustry_of industryList ticker)
         \<or> (\<forall>r. recommendationsBySymbol P ticker = Some r \<longrightarrow> distinct r)
        \<longrightarrow> distinct cands)"
proof (cases "Option.bind (profile_of P ticker) assetProfile")
  case None
  then have "map slug (verifiedPeers_of P industryList ticker exchangeRate) =
      filter (\<lambda>s. s \<noteq> ticker) []"
    by (simp add: verifiedPeers_of_def)
  then show ?thesis by (metis distinct.simps(1))
next
  case (Some profile)
  show ?thesis
  proof (cases "recommendationsBySymbol P ticker")
    case None
    with Some have "map slug (verifiedPeers_of P industryList ticker exchangeRate) =
        filter (\<lambda>s. s \<noteq> ticker) []"
      by (simp add: verifiedPeers_of_def)
    then show ?thesis by (metis distinct.simps(1))
  next
    case r: (Some recommended)
    let ?v = "verifyPeer P industryList ticker (str_or (ap_industry profile) [])
        (excelIndustry_of industryList ticker) exchangeRate"
    let ?c = "take 20 (candidateSymbols_of industryList ticker recommended)"
    have "map slug (non_null (map ?v ?c)) = filter (\<lambda>x. ?v x \<noteq> None) ?c"
      by (rule non_null_map_slug) (simp add: verifyPeer_slug)
    also have "\<dots> = filter (\<lambda>s. s \<noteq> ticker) (filter (\<lambda>x. ?v x \<noteq> None) ?c)"
      unfolding filter_filter by (rule filter_cong) (auto dest: verifyPeer_slug)
    finally have 1: "map slug (verifiedPeers_of P industryList ticker exchangeRate) =
        filter (\<lambda>s. s \<noteq> ticker) (filter (\<lambda>x. ?v x \<noteq> None) ?c)"
      using Some r by (simp add: verifiedPeers_of_def Let_def)
    have "distinct (candidateSymbols_of industryList ticker recommended)"
      if "truthy_str (excelIndustry_of industryList ticker)
         \<or> (\<forall>r. recommendationsBySymbol P ticker = Some r \<longrightarrow> distinct r)"
      using that r by (auto simp: candidateSymbols_of_def Let_def set_order_distinct)
    then have 2: "truthy_str (excelIndustry_of industryList ticker)
         \<or> (\<forall>r. recommendationsBySymbol P ticker = Some r \<longrightarrow> distinct r)
        \<longrightarrow> distinct (filter (\<lambda>x. ?v x \<noteq> None) ?c)"
      by simp
    from 1 2 show ?thesis by blast
  qed
qed

text \<open>
  Claim C5, as the code has it. The list \<open>getPeers\<close> returns has at most ten
  entries, never holds the target symbol, and is in descending order of market
  capitalisation; it is the first ten of the verified peers after a stable sort, so
  peers of equal capitalisation keep their order of discovery. No symbol appears twice
  provided the target has an industry in the directory (the candidates are then
  de-duplicated) or the recommender's list has no repeated symbol.
\<close>

theorem getPeers_invariants:
  "let peers = getPeers P industryList ticker exchangeRate;
       ranked = rankedPeers_of P industryList ticker exchangeRate;
       verified = verifiedPeers_of P industryList ticker exchangeRate
   in length peers \<le> 10
    \<and> ticker \<notin> set (map slug peers)
    \<and> (truthy_str (excelIndustry_of industryList ticker)
         \<or> (\<forall>r. recommendationsBySymbol P ticker = Some r \<longrightarrow> distinct r)
        \<longrightarrow> distinct (map slug peers))
    \<and> (\<forall>i j. i < j \<and> j < length peers \<longrightarrow> marketCap (peers ! j) \<le> marketCap (peers ! i))
    \<and> peers = take 10 ranked
    \<and> mset ranked = mset verified
    \<and> sorted_wrt (\<lambda>a b. marketCap b \<le> marketCap a) ranked
    \<and> (\<forall>k. filter (\<lambda>p. marketCap p = k) ranked = filter (\<lambda>p. marketCap p = k) verified)"
proof -
  let ?peers = "getPeers P industryList ticker exchangeRate"
  let ?ranked = "rankedPeers_of P industryList ticker exchangeRate"
  let ?verified = "verifiedPeers_of P industryList ticker exchangeRate"
  have take: "?peers = take 10 ?ranked"
    by (rule getPeers_ranked)
  have len: "length ?peers \<le> 10"
    by (simp add: take)
  have sorted: "sorted_wrt (\<lambda>a b. marketCap b \<le> marketCap a) ?ranked"
    unfolding rankedPeers_of_def by (rule js_sort_descending)
  then have "sorted_wrt (\<lambda>a b. marketCap b \<le> marketCap a) ?peers"
    unfolding take by (rule sorted_wrt_take)
  then have desc: "\<forall>i j. i < j \<and> j < length ?peers \<longrightarrow>
      marketCap (?peers ! j) \<le> marketCap (?peers ! i)"
    by (simp add: sorted_wrt_nth)
  have mset: "mset ?ranked = mset ?verified"
    unfolding rankedPeers_of_def by (rule js_sort_mset)
  have stable: "\<forall>k. filter (\<lambda>p. marketCap p = k) ?ranked = filter (\<lambda>p. marketCap p = k) ?verified"
    unfolding rankedPeers_of_def by (simp add: js_sort_stable)
  from verifiedPeers_slugs [of P industryList ticker exchangeRate] obtain cands where
    cands: "map slug ?verified = filter (\<lambda>s. s \<noteq> ticker) cands"
    and dist: "truthy_str (excelIndustry_of industryList ticker)
         \<or> (\<forall>r. recommendationsBySymbol P ticker = Some r \<longrightarrow> distinct r)
        \<longrightarrow> distinct cands"
    by blast
  have "set (map slug ?peers) \<subseteq> set (map slug ?ranked)"
    unfolding take by (auto dest: in_set_takeD)
  also have "\<dots> = set (map slug ?verified)"
    by (simp add: rankedPeers_of_def js_sort_set)
  finally have notin: "ticker \<notin> set (map slug ?peers)"
    unfolding cands by auto
  have "distinct (map slug ?peers)"
    if "truthy_str (excelIndustry_of industryList ticker)
         \<or> (\<forall>r. recommendationsBySymbol P ticker = Some r \<longrightarrow> distinct r)"
  proof -
    from that dist have "distinct (map slug ?verified)"
      unfolding cands by simp
    then have "distinct (map slug ?ranked)"
      by (simp add: rankedPeers_of_def js_sort_distinct_map)
    then show ?thesis
      unfolding take take_map [symmetric] by (rule distinct_take)
  qed
  with len notin desc take mset sorted stable show ?thesis
    unfolding Let_def by blast
qed

lemma ex_cs:
  "candidateSummary (example_provider r) ''AAA.NS'' = Some (example_summary ''IT'' (Some 5))"
  "candidateSummary (example_provider r) ''BBB.NS'' = Some (example_summary ''IT'' (Some 7))"
  "candidateSummary (example_provider r) ''CCC.NS'' = Some (example_summary ''Steel'' (Some 9))"
  "candidateSummary (example_provider r) ''TGT.NS'' = Some (example_summary ''IT'' (Some 8))"
  "candidateQuote (example_provider r) s = None"
  "profile_of (example_provider r) s = Some (example_summary ''IT'' None)"
  "recommendationsBySymbol (example_provider r) s = Some r"
  by (simp_all add: example_provider_def)

lemma ex_verify:
  "verifyPeer (example_provider r) [] ''TGT.NS'' ''IT'' None 83 ''AAA.NS'' =
     Some \<lparr>slug = ''AAA.NS'', sector = ''Technology > IT'', marketCap = 5\<rparr>"
  "verifyPeer (example_provider r) [] ''TGT.NS'' ''IT'' None 83 ''BBB.NS'' =
     Some \<lparr>slug = ''BBB.NS'', sector = ''Technology > IT'', marketCap = 7\<rparr>"
  "verifyPeer (example_provider r) [] ''TGT.NS'' ''IT'' None 83 ''CCC.NS'' = None"
  "verifyPeer (example_provider r) [] ''TGT.NS'' ''IT'' None 83 ''TGT.NS'' = None"
  by (simp_all add: verifyPeer_def ex_cs example_summary_def)

lemma ex_c: "candidateSymbols_of [] t r = r"
  by (simp add: candidateSymbols_of_def excelIndustry_of_def)

lemma ex_v:
  "verifiedPeers_of (example_provider [''AAA.NS'', ''BBB.NS'', ''TGT.NS'', ''CCC.NS'']) []
     ''TGT.NS'' 83 =
     [\<lparr>slug = ''AAA.NS'', sector = ''Technology > IT'', marketCap = 5\<rparr>,
      \<lparr>slug = ''BBB.NS'', sector = ''Technology > IT'', marketCap = 7\<rparr>]"
  by (simp add: verifiedPeers_of_def ex_cs ex_c excelIndustry_of_def example_summary_def
      ex_verify non_null_def Let_def)

lemma ex_r:
  "rankedPeers_of (example_provider [''AAA.NS'', ''BBB.NS'', ''TGT.NS'', ''CCC.NS'']) []
     ''TGT.NS'' 83 =
     [\<lparr>slug = ''BBB.NS'', sector = ''Technology > IT'', marketCap = 7\<rparr>,
      \<lparr>slug = ''AAA.NS'', sector = ''Technology > IT'', marketCap = 5\<rparr>]"
  by (simp add: rankedPeers_of_def ex_v js_sort_def)

lemma example_getPeers:
  "getPeers (example_provider [''AAA.NS'', ''BBB.NS'', ''TGT.NS'', ''CCC.NS'']) [] ''TGT.NS'' 83 =
     [\<lparr>slug = ''BBB.NS'', sector = ''Technology > IT'', marketCap = 7\<rparr>,
      \<lparr>slug = ''AAA.NS'', sector = ''Technology > IT'', marketCap = 5\<rparr>]"
  by (simp add: getPeers_ranked ex_r)

theorem getPeers_invariants_witness:
  "getPeers (example_provider [''AAA.NS'', ''BBB.NS'', ''TGT.NS'', ''CCC.NS'']) [] ''TGT.NS'' 83 =
     [\<lparr>slug = ''BBB.NS'', sector = ''Technology > IT'', marketCap = 7\<rparr>,
      \<lparr>slug = ''AAA.NS'', sector = ''Technology > IT'', marketCap = 5\<rparr>]
   \<and> distinct (map slug
        (getPeers (example_provider [''AAA.NS'', ''BBB.NS'', ''TGT.NS'', ''CCC.NS'']) []
           ''TGT.NS'' 83))
   \<and> ''TGT.NS'' \<notin> set (map slug
        (getPeers (example_provider [''AAA.NS'', ''BBB.NS'', ''TGT.NS'', ''CCC.NS'']) []
           ''TGT.NS'' 83))"
proof -
  let ?P = "example_provider [''AAA.NS'', ''BBB.NS'', ''TGT.NS'', ''CCC.NS'']"
  have d: "truthy_str (excelIndustry_of [] ''TGT.NS'')
      \<or> (\<forall>r. recommendationsBySymbol ?P ''TGT.NS'' = Some r \<longrightarrow> distinct r)"
    by (simp add: ex_cs)
  note t = getPeers_invariants [of ?P "[]" "''TGT.NS''" 83, unfolded Let_def]
  from t d have "distinct (map slug (getPeers ?P [] ''TGT.NS'' 83))"
    by (elim conjE impE) assumption
  moreover from t have "''TGT.NS'' \<notin> set (map slug (getPeers ?P [] ''TGT.NS'' 83))"
    by (elim conjE) assumption
  ultimately show ?thesis
    using example_getPeers by (intro conjI) assumption+
qed

text \<open>
  Without the proviso the claim fails: with no directory entry for the target, a symbol
  the recommender lists twice is returned twice.
\<close>

lemma ex_dup_v:
  "verifiedPeers_of (example_provider [''AAA.NS'', ''AAA.NS'']) [] ''TGT.NS'' 83 =
     [\<lparr>slug = ''AAA.NS'', sector = ''Technology > IT'', marketCap = 5\<rparr>,
      \<lparr>slug = ''AAA.NS'', sector = ''Technology > IT'', marketCap = 5\<rparr>]"
  by (simp add: verifiedPeers_of_def ex_cs ex_c excelIndustry_of_def example_summary_def
      ex_verify non_null_def Let_def)

theorem getPeers_duplicate_counterexample:
  "map slug (getPeers (example_provider [''AAA.NS'', ''AAA.NS'']) [] ''TGT.NS'' 83) =
     [''AAA.NS'', ''AAA.NS'']"
  by (simp add: getPeers_ranked rankedPeers_of_def ex_dup_v js_sort_def)

section \<open>Properties of the route\<close>

lemma normalize_usd_factor: "v * usd_factor c fx = normalize_spec v c fx"
  by (simp add: usd_factor_def normalize_spec_def)

lemma targetData_monetary:
  "t_marketCap (targetData_of ft t e p m q f fx) =
     num_or (Option.bind q q_marketCap) 0 * usd_factor (tradingCurrency_of q) fx"
  "t_enterpriseValue (targetData_of ft t e p m q f fx) =
     num_or (Option.bind (Option.bind f defaultKeyStatistics) ks_enterpriseValue) 0
       * usd_factor (tradingCurrency_of q) fx"
  "t_revenue (targetData_of ft t e p m q f fx) =
     num_or (Option.bind (Option.bind f financialData) fd_totalRevenue) 0
       * usd_factor (financialCurrency_of q f) fx"
  "t_ebitda (targetData_of ft t e p m q f fx) =
     num_or (Option.bind (Option.bind f financialData) fd_ebitda) 0
       * usd_factor (financialCurrency_of q f) fx"
  by (simp_all add: targetData_of_def Let_def)

lemma targetData_ratios:
  "t_evRevenueMultiple (targetData_of ft t e p m q f fx) =
     evRevenueMultiple_of (Option.bind (Option.bind f defaultKeyStatistics) ks_enterpriseValue)
       (Option.bind (Option.bind f financialData) fd_totalRevenue)
       (usd_factor (financialCurrency_of q f) fx) (usd_factor (tradingCurrency_of q) fx)"
  "t_peRatio (targetData_of ft t e p m q f fx) =
     Option.bind (Option.bind f summaryDetail) sd_trailingPE"
  "t_pbRatio (targetData_of ft t e p m q f fx) =
     Option.bind (Option.bind f defaultKeyStatistics) ks_priceToBook"
  "t_dividendYield (targetData_of ft t e p m q f fx) =
     Option.bind (Option.bind f summaryDetail) sd_dividendYield"
  "t_debtToEquity (targetData_of ft t e p m q f fx) =
     Option.bind (Option.bind f financialData) fd_debtToEquity"
  "t_profitMargin (targetData_of ft t e p m q f fx) =
     Option.bind (Option.bind f financialData) fd_profitMargins"
  by (simp_all add: targetData_of_def Let_def)


lemma peerResult_monetary:
  assumes "peerResult_of P dateMap fx peer = Some r"
  shows "p_marketCap r =
     num_or (Option.bind (peerQuote P (slug peer)) q_marketCap) 0
       * usd_factor (tradingCurrency_of (peerQuote P (slug peer))) fx"
    and "p_enterpriseValue r =
     num_or (Option.bind (Option.bind (peerFundamentals P (slug peer)) defaultKeyStatistics)
          ks_enterpriseValue) 0
       * usd_factor (tradingCurrency_of (peerQuote P (slug peer))) fx"
    and "p_revenue r =
     num_or (Option.bind (Option.bind (peerFundamentals P (slug peer)) financialData)
          fd_totalRevenue) 0
       * usd_factor (financialCurrency_of (peerQuote P (slug peer))
           (peerFundamentals P (slug peer))) fx"
    and "p_ebitda r =
     num_or (Option.bind (Option.bind (peerFundamentals P (slug peer)) financialData)
          fd_ebitda) 0
       * usd_factor (financialCurrency_of (peerQuote P (slug peer))
           (peerFundamentals P (slug peer))) fx"
  using assms
  by (auto simp: peerResult_of_def Let_def split: option.splits if_splits prod.splits)

lemma peerResult_ratios:
  assumes "peerResult_of P dateMap fx peer = Some r"
  shows "p_evRevenueMultiple r =
     evRevenueMultiple_of
       (Option.bind (Option.bind (peerFundamentals P (slug peer)) defaultKeyStatistics)
          ks_enterpriseValue)
       (Option.bind (Option.bind (peerFundamentals P (slug peer)) financialData)
          fd_totalRevenue)
       (usd_factor (financialCurrency_of (peerQuote P (slug peer))
           (peerFundamentals P (slug peer))) fx)
       (usd_factor (tradingCurrency_of (peerQuote P (slug peer))) fx)"
    and "p_peRatio r =
       Option.bind (Option.bind (peerFundamentals P (slug peer)) summaryDetail) sd_trailingPE"
    and "p_pbRatio r =
       Option.bind (Option.bind (peerFundamentals P (slug peer)) defaultKeyStatistics)
         ks_priceToBook"
    and "p_dividendYield r =
       Option.bind (Option.bind (peerFundamentals P (slug peer)) summaryDetail)
         sd_dividendYield"
    and "p_debtToEquity r =
       Option.bind (Option.bind (peerFundamentals P (slug peer)) financialData)
         fd_debtToEquity"
    and "p_profitMargin r =
       Option.bind (Option.bind (peerFundamentals P (slug peer)) financialData)
         fd_profitMargins"
  using assms
  by (auto simp: peerResult_of_def Let_def split: option.splits if_splits prod.splits)




lemma num_or_None: "num_or None 0 = 0"
  by simp

lemma num_or_Some_0: "num_or (Some x) 0 = x"
  by simp



text \<open>
  Claim C6. Every monetary field of the target and of each peer is the raw value
  (0 when it is missing) normalised by the currency associated with the field: the
  trading currency for market capitalisation and enterprise value, the reporting currency
  for revenue and EBITDA. The normalisation multiplies by the exchange rate exactly when
  that currency is USD and leaves the value unchanged otherwise; so a USD field is linear
  in the rate and equals the raw value at rate 1, and any other field does not depend on
  the rate.
\<close>

theorem currency_normalization:
  "(let td = targetData_of fullTicker ticker exch period m quote financials fx;
        fd = Option.bind financials financialData;
        ks = Option.bind financials defaultKeyStatistics
    in t_marketCap td =
         normalize_spec (num_or (Option.bind quote q_marketCap) 0) (tradingCurrency_of quote) fx
     \<and> t_enterpriseValue td =
         normalize_spec (num_or (Option.bind ks ks_enterpriseValue) 0) (tradingCurrency_of quote) fx
     \<and> t_revenue td =
         normalize_spec (num_or (Option.bind fd fd_totalRevenue) 0)
           (financialCurrency_of quote financials) fx
     \<and> t_ebitda td =
         normalize_spec (num_or (Option.bind fd fd_ebitda) 0)
           (financialCurrency_of quote financials) fx)
   \<and> (\<forall>r. peerResult_of P dateMap fx peer = Some r \<longrightarrow>
        (let pQuote = peerQuote P (slug peer);
             pFin = peerFundamentals P (slug peer);
             fd = Option.bind pFin financialData;
             ks = Option.bind pFin defaultKeyStatistics
         in p_marketCap r =
              normalize_spec (num_or (Option.bind pQuote q_marketCap) 0) (tradingCurrency_of pQuote) fx
          \<and> p_enterpriseValue r =
              normalize_spec (num_or (Option.bind ks ks_enterpriseValue) 0)
                (tradingCurrency_of pQuote) fx
          \<and> p_revenue r =
              normalize_spec (num_or (Option.bind fd fd_totalRevenue) 0)
                (financialCurrency_of pQuote pFin) fx
          \<and> p_ebitda r =
              normalize_spec (num_or (Option.bind fd fd_ebitda) 0)
                (financialCurrency_of pQuote pFin) fx))
   \<and> normalize_spec v ''USD'' (a * fx1 + b * fx2) =
       a * normalize_spec v ''USD'' fx1 + b * normalize_spec v ''USD'' fx2
   \<and> normalize_spec v ''USD'' 1 = v
   \<and> (c \<noteq> ''USD'' \<longrightarrow> normalize_spec v c fx1 = v \<and> normalize_spec v c fx2 = v)"
proof -
  have target: "let td = targetData_of fullTicker ticker exch period m quote financials fx;
        fd = Option.bind financials financialData;
        ks = Option.bind financials defaultKeyStatistics
    in t_marketCap td =
         normalize_spec (num_or (Option.bind quote q_marketCap) 0) (tradingCurrency_of quote) fx
     \<and> t_enterpriseValue td =
         normalize_spec (num_or (Option.bind ks ks_enterpriseValue) 0) (tradingCurrency_of quote) fx
     \<and> t_revenue td =
         normalize_spec (num_or (Option.bind fd fd_totalRevenue) 0)
           (financialCurrency_of quote financials) fx
     \<and> t_ebitda td =
         normalize_spec (num_or (Option.bind fd fd_ebitda) 0)
           (financialCurrency_of quote financials) fx"
    unfolding Let_def targetData_monetary normalize_usd_factor by simp
  have peer: "let pQuote = peerQuote P (slug peer);
             pFin = peerFundamentals P (slug peer);
             fd = Option.bind pFin financialData;
             ks = Option.bind pFin defaultKeyStatistics
         in p_marketCap r =
              normalize_spec (num_or (Option.bind pQuote q_marketCap) 0) (tradingCurrency_of pQuote) fx
          \<and> p_enterpriseValue r =
              normalize_spec (num_or (Option.bind ks ks_enterpriseValue) 0)
                (tradingCurrency_of pQuote) fx
          \<and> p_revenue r =
              normalize_spec (num_or (Option.bind fd fd_totalRevenue) 0)
                (financialCurrency_of pQuote pFin) fx
          \<and> p_ebitda r =
              normalize_spec (num_or (Option.bind fd fd_ebitda) 0)
                (financialCurrency_of pQuote pFin) fx"
    if "peerResult_of P dateMap fx peer = Some r" for r
    unfolding Let_def peerResult_monetary [OF that] normalize_usd_factor by simp
  have lin: "normalize_spec v ''USD'' (a * fx1 + b * fx2) =
       a * normalize_spec v ''USD'' fx1 + b * normalize_spec v ''USD'' fx2"
    by (simp add: normalize_spec_def algebra_simps)
  have one: "normalize_spec v ''USD'' 1 = v"
    by (simp add: normalize_spec_def)
  have inv: "c \<noteq> ''USD'' \<longrightarrow> normalize_spec v c fx1 = v \<and> normalize_spec v c fx2 = v"
    by (simp add: normalize_spec_def)
  from target peer lin one inv show ?thesis by blast
qed

lemma ex_peer_fields:
  "peerHistorical (example_provider r) ''AAA.NS'' =
     Some [\<lparr>date = ''2024-02-01'', close = Some (Fin 10)\<rparr>,
           \<lparr>date = ''2024-02-02'', close = Some (Fin 11)\<rparr>]"
  "peerHistorical (example_provider r) ''BBB.NS'' =
     Some [\<lparr>date = ''2024-01-01'', close = Some (Fin 50)\<rparr>,
           \<lparr>date = ''2024-01-02'', close = Some (Fin 55)\<rparr>,
           \<lparr>date = ''2024-01-03'', close = Some (Fin 44)\<rparr>]"
  "peerQuote (example_provider r) ''AAA.NS'' = Some (example_quote (Some ''USD'') (Some 10) None)"
  "peerQuote (example_provider r) ''BBB.NS'' = None"
  "peerFundamentals (example_provider r) ''AAA.NS'' = Some (example_financials (Some 1600))"
  "peerFundamentals (example_provider r) ''BBB.NS'' = None"
  by (simp_all add: example_provider_def)

lemma ex_align_AAA:
  "align_prices (build_dateMap example_market)
     [\<lparr>date = ''2024-02-01'', close = Some (Fin 10)\<rparr>,
      \<lparr>date = ''2024-02-02'', close = Some (Fin 11)\<rparr>] = ([], [])"
  by (simp add: align_prices_joined joined_rows_def has_valid_close_def example_market_def)

lemma ex_align_BBB:
  "align_prices (build_dateMap example_market)
     [\<lparr>date = ''2024-01-01'', close = Some (Fin 50)\<rparr>,
      \<lparr>date = ''2024-01-02'', close = Some (Fin 55)\<rparr>,
      \<lparr>date = ''2024-01-03'', close = Some (Fin 44)\<rparr>] =
     ([Fin 50, Fin 55, Fin 44], [Fin 1000, Fin 1020, Fin 1010])"
  by (simp add: align_prices_joined joined_rows_def has_valid_close_def valid_close_def
      reference_close_def example_market_def)

lemma ex_metrics_none: "calculateFinancialMetrics [] [] = None"
  by (simp add: calculateFinancialMetrics_def)

lemma ex_factors:
  "tradingCurrency_of (Some (example_quote c cap p)) = str_or c ''INR''"
  "tradingCurrency_of None = ''INR''"
  "financialCurrency_of q (Some (example_financials ev)) = ''USD''"
  "financialCurrency_of q None = tradingCurrency_of q"
  by (simp_all add: tradingCurrency_of_def financialCurrency_of_def example_quote_def
      example_financials_def)

lemma ex_peerResult_AAA:
  "peerResult_of (example_provider rec) (build_dateMap example_market) 80
     \<lparr>slug = ''AAA.NS'', sector = ''Technology > IT'', marketCap = 5\<rparr> =
   Some \<lparr>p_ticker = ''AAA.NS'', p_name = ''Example'', p_beta = None, p_volatility = None,
     p_alpha = None, p_correlation = None, p_rSquared = None, p_marketCap = 800,
     p_revenue = 800, p_enterpriseValue = 128000, p_evRevenueMultiple = Some 160,
     p_peRatio = Some 25, p_pbRatio = None, p_dividendYield = None, p_ebitda = 160,
     p_debtToEquity = None, p_profitMargin = None, p_sector = ''Technology > IT''\<rparr>"
  by (simp add: peerResult_of_def ex_peer_fields ex_align_AAA ex_metrics_none ex_factors
      usd_factor_def evRevenueMultiple_of_def)
    (simp add: example_quote_def example_financials_def)


theorem currency_normalization_witness:
  "t_marketCap (targetData_of ''TGT.NS'' ''TGT'' NSE None example_metrics
      (Some (example_quote (Some ''INR'') (Some 500) None))
      (Some (example_financials (Some 1600))) 80) = normalize_spec 500 ''INR'' 80
   \<and> t_revenue (targetData_of ''TGT.NS'' ''TGT'' NSE None example_metrics
      (Some (example_quote (Some ''INR'') (Some 500) None))
      (Some (example_financials (Some 1600))) 80) = normalize_spec 10 ''USD'' 80
   \<and> normalize_spec 500 ''INR'' 80 = 500
   \<and> normalize_spec 10 ''USD'' 1 = 10
   \<and> p_marketCap (the (peerResult_of (example_provider []) (build_dateMap example_market) 80
          \<lparr>slug = ''AAA.NS'', sector = ''Technology > IT'', marketCap = 5\<rparr>))
       = normalize_spec 10 ''USD'' 80"
proof -
  let ?q = "Some (example_quote (Some ''INR'') (Some 500) None)"
  let ?f = "Some (example_financials (Some 1600))"
  let ?peer = "\<lparr>slug = ''AAA.NS'', sector = ''Technology > IT'', marketCap = 5\<rparr>"
  let ?r = "the (peerResult_of (example_provider []) (build_dateMap example_market) 80 ?peer)"
  note t = currency_normalization [where fullTicker = "''TGT.NS''" and ticker = "''TGT''"
      and exch = NSE and period = None and m = example_metrics and quote = ?q
      and financials = ?f and fx = 80 and P = "example_provider []"
      and dateMap = "build_dateMap example_market" and peer = ?peer and v = 10
      and c = "''INR''" and ?fx1.0 = 80 and ?fx2.0 = 80 and a = 1 and b = 0,
      unfolded Let_def]
  have raw: "num_or (Option.bind ?q q_marketCap) 0 = 500"
    "num_or (Option.bind (Option.bind ?f financialData) fd_totalRevenue) 0 = 10"
    by (simp_all add: example_quote_def example_financials_def)
  have cur: "tradingCurrency_of ?q = ''INR''" "financialCurrency_of ?q ?f = ''USD''"
    by (simp_all add: ex_factors)
  have sl: "slug ?peer = ''AAA.NS''" by simp
  have praw: "num_or (Option.bind (peerQuote (example_provider []) ''AAA.NS'') q_marketCap) 0
      = 10"
    by (simp add: ex_peer_fields example_quote_def)
  have pcur: "tradingCurrency_of (peerQuote (example_provider []) ''AAA.NS'') = ''USD''"
    by (simp add: ex_peer_fields ex_factors)
  have some: "peerResult_of (example_provider []) (build_dateMap example_market) 80 ?peer
      = Some ?r"
    by (simp only: ex_peerResult_AAA option.sel)
  from t [THEN conjunct1, THEN conjunct1]
  have 1: "t_marketCap (targetData_of ''TGT.NS'' ''TGT'' NSE None example_metrics ?q ?f 80)
      = normalize_spec 500 ''INR'' 80"
    by (simp only: raw cur)
  from t [THEN conjunct1, THEN conjunct2, THEN conjunct2, THEN conjunct1]
  have 2: "t_revenue (targetData_of ''TGT.NS'' ''TGT'' NSE None example_metrics ?q ?f 80)
      = normalize_spec 10 ''USD'' 80"
    by (simp only: raw cur)
  have ne: "''INR'' \<noteq> ''USD''" by simp
  have 3: "normalize_spec 500 ''INR'' 80 = 500"
    using currency_normalization [where v = 500 and c = "''INR''" and ?fx1.0 = 80,
        THEN conjunct2, THEN conjunct2, THEN conjunct2, THEN conjunct2, rule_format, OF ne]
    by (rule conjunct1)
  from t [THEN conjunct2, THEN conjunct2, THEN conjunct2, THEN conjunct1]
  have 4: "normalize_spec 10 ''USD'' 1 = 10" .
  from t [THEN conjunct2, THEN conjunct1, rule_format, OF some, THEN conjunct1]
  have 5: "p_marketCap ?r = normalize_spec 10 ''USD'' 80"
    by (simp only: sl praw pcur)
  from 1 2 3 4 5 show ?thesis by (intro conjI)
qed




lemma finalPeers_of_sort:
  "finalPeers_of P dateMap fx peerList =
     js_sort (\<lambda>a b. p_marketCap b - p_marketCap a)
       (non_null (map (peerResult_of P dateMap fx) peerList))"
  by (simp add: finalPeers_of_def)

lemma finalPeers_of_descending:
  "sorted_wrt (\<lambda>a b. p_marketCap b \<le> p_marketCap a) (finalPeers_of P dateMap fx peerList)"
  unfolding finalPeers_of_sort by (rule js_sort_descending)

lemma getPeers_descending:
  "sorted_wrt (\<lambda>a b. marketCap b \<le> marketCap a) (getPeers P industryList ticker fx)"
  unfolding getPeers_ranked rankedPeers_of_def
  by (rule sorted_wrt_take) (rule js_sort_descending)

lemma verifyPeer_marketCap:
  assumes "verifyPeer P industryList ticker targetIndustry excelIndustry fx symbol = Some p"
    and "Option.bind (Option.bind (candidateSummary P symbol) summaryDetail) sd_marketCap = None"
  shows "marketCap p = 0"
  using assms
  by (auto simp: verifyPeer_def Let_def split: option.splits if_splits)

text \<open>
  Claim C10. For the target and for each peer, a monetary field (market capitalisation,
  revenue, enterprise value, EBITDA) whose upstream value is unavailable is emitted as 0,
  while the ratio fields pass the upstream value through and are absent when it is. A
  verified peer without a market capitalisation is ranked with 0, and in the ranked
  lists no peer after one of capitalisation 0 has a positive capitalisation.
\<close>

theorem missing_values_default:
  "(let td = targetData_of fullTicker ticker exch period m quote financials fx;
        fd = Option.bind financials financialData;
        ks = Option.bind financials defaultKeyStatistics;
        sd = Option.bind financials summaryDetail
    in (Option.bind quote q_marketCap = None \<longrightarrow> t_marketCap td = 0)
     \<and> (Option.bind fd fd_totalRevenue = None \<longrightarrow> t_revenue td = 0)
     \<and> (Option.bind ks ks_enterpriseValue = None \<longrightarrow> t_enterpriseValue td = 0)
     \<and> (Option.bind fd fd_ebitda = None \<longrightarrow> t_ebitda td = 0)
     \<and> t_peRatio td = Option.bind sd sd_trailingPE
     \<and> t_pbRatio td = Option.bind ks ks_priceToBook
     \<and> t_dividendYield td = Option.bind sd sd_dividendYield
     \<and> t_debtToEquity td = Option.bind fd fd_debtToEquity
     \<and> t_profitMargin td = Option.bind fd fd_profitMargins)
   \<and> (\<forall>r. peerResult_of P dateMap fx peer = Some r \<longrightarrow>
        (let pQuote = peerQuote P (slug peer);
             pFin = peerFundamentals P (slug peer);
             fd = Option.bind pFin financialData;
             ks = Option.bind pFin defaultKeyStatistics;
             sd = Option.bind pFin summaryDetail
         in (Option.bind pQuote q_marketCap = None \<longrightarrow> p_marketCap r = 0)
          \<and> (Option.bind fd fd_totalRevenue = None \<longrightarrow> p_revenue r = 0)
          \<and> (Option.bind ks ks_enterpriseValue = None \<longrightarrow> p_enterpriseValue r = 0)
          \<and> (Option.bind fd fd_ebitda = None \<longrightarrow> p_ebitda r = 0)
          \<and> p_peRatio r = Option.bind sd sd_trailingPE
          \<and> p_pbRatio r = Option.bind ks ks_priceToBook
          \<and> p_dividendYield r = Option.bind sd sd_dividendYield
          \<and> p_debtToEquity r = Option.bind fd fd_debtToEquity
          \<and> p_profitMargin r = Option.bind fd fd_profitMargins))
   \<and> (\<forall>p. verifyPeer P industryList fullTicker targetIndustry excelIndustry fx symbol = Some p
          \<and> Option.bind (Option.bind (candidateSummary P symbol) summaryDetail) sd_marketCap
              = None \<longrightarrow>
        marketCap p = 0)
   \<and> (let peers = getPeers P industryList fullTicker fx
       in \<forall>i j. i < j \<and> j < length peers \<and> marketCap (peers ! i) = 0 \<longrightarrow>
            marketCap (peers ! j) \<le> 0)
   \<and> (let final = finalPeers_of P dateMap fx peerList
       in \<forall>i j. i < j \<and> j < length final \<and> p_marketCap (final ! i) = 0 \<longrightarrow>
            p_marketCap (final ! j) \<le> 0)"
proof -
  have target: "let td = targetData_of fullTicker ticker exch period m quote financials fx;
        fd = Option.bind financials financialData;
        ks = Option.bind financials defaultKeyStatistics;
        sd = Option.bind financials summaryDetail
    in (Option.bind quote q_marketCap = None \<longrightarrow> t_marketCap td = 0)
     \<and> (Option.bind fd fd_totalRevenue = None \<longrightarrow> t_revenue td = 0)
     \<and> (Option.bind ks ks_enterpriseValue = None \<longrightarrow> t_enterpriseValue td = 0)
     \<and> (Option.bind fd fd_ebitda = None \<longrightarrow> t_ebitda td = 0)
     \<and> t_peRatio td = Option.bind sd sd_trailingPE
     \<and> t_pbRatio td = Option.bind ks ks_priceToBook
     \<and> t_dividendYield td = Option.bind sd sd_dividendYield
     \<and> t_debtToEquity td = Option.bind fd fd_debtToEquity
     \<and> t_profitMargin td = Option.bind fd fd_profitMargins"
    unfolding Let_def targetData_monetary targetData_ratios by simp
  have peer: "let pQuote = peerQuote P (slug peer);
             pFin = peerFundamentals P (slug peer);
             fd = Option.bind pFin financialData;
             ks = Option.bind pFin defaultKeyStatistics;
             sd = Option.bind pFin summaryDetail
         in (Option.bind pQuote q_marketCap = None \<longrightarrow> p_marketCap r = 0)
          \<and> (Option.bind fd fd_totalRevenue = None \<longrightarrow> p_revenue r = 0)
          \<and> (Option.bind ks ks_enterpriseValue = None \<longrightarrow> p_enterpriseValue r = 0)
          \<and> (Option.bind fd fd_ebitda = None \<longrightarrow> p_ebitda r = 0)
          \<and> p_peRatio r = Option.bind sd sd_trailingPE
          \<and> p_pbRatio r = Option.bind ks ks_priceToBook
          \<and> p_dividendYield r = Option.bind sd sd_dividendYield
          \<and> p_debtToEquity r = Option.bind fd fd_debtToEquity
          \<and> p_profitMargin r = Option.bind fd fd_profitMargins"
    if "peerResult_of P dateMap fx peer = Some r" for r
    unfolding Let_def peerResult_monetary [OF that] peerResult_ratios [OF that] by simp
  have cand: "marketCap p = 0"
    if "verifyPeer P industryList fullTicker targetIndustry excelIndustry fx symbol = Some p
      \<and> Option.bind (Option.bind (candidateSummary P symbol) summaryDetail) sd_marketCap = None"
    for p
    using that verifyPeer_marketCap by blast
  have rank: "marketCap (getPeers P industryList fullTicker fx ! j) \<le> 0"
    if "i < j \<and> j < length (getPeers P industryList fullTicker fx)
      \<and> marketCap (getPeers P industryList fullTicker fx ! i) = 0" for i j
    using sorted_wrt_nth [OF getPeers_descending, of i j P industryList fullTicker fx] that
    by simp
  have final: "p_marketCap (finalPeers_of P dateMap fx peerList ! j) \<le> 0"
    if "i < j \<and> j < length (finalPeers_of P dateMap fx peerList)
      \<and> p_marketCap (finalPeers_of P dateMap fx peerList ! i) = 0" for i j
    using sorted_wrt_nth [OF finalPeers_of_descending, of i j P dateMap fx peerList] that
    by simp
  from target peer cand rank final show ?thesis
    unfolding Let_def by blast
qed

lemma ex_cs_nocap:
  "candidateSummary (example_provider r) ''DDD.NS'' = Some (example_summary ''IT'' None)"
  "candidateSummary (example_provider r) ''EEE.NS'' = Some (example_summary ''IT'' None)"
  by (simp_all add: example_provider_def)

lemma ex_verify_nocap:
  "verifyPeer (example_provider r) [] ''TGT.NS'' ''IT'' None 83 ''DDD.NS'' =
     Some \<lparr>slug = ''DDD.NS'', sector = ''Technology > IT'', marketCap = 0\<rparr>"
  "verifyPeer (example_provider r) [] ''TGT.NS'' ''IT'' None 83 ''EEE.NS'' =
     Some \<lparr>slug = ''EEE.NS'', sector = ''Technology > IT'', marketCap = 0\<rparr>"
  by (simp_all add: verifyPeer_def ex_cs ex_cs_nocap example_summary_def)

lemma ex_nocap_v:
  "verifiedPeers_of (example_provider [''DDD.NS'', ''AAA.NS'', ''EEE.NS'']) [] ''TGT.NS'' 83 =
     [\<lparr>slug = ''DDD.NS'', sector = ''Technology > IT'', marketCap = 0\<rparr>,
      \<lparr>slug = ''AAA.NS'', sector = ''Technology > IT'', marketCap = 5\<rparr>,
      \<lparr>slug = ''EEE.NS'', sector = ''Technology > IT'', marketCap = 0\<rparr>]"
  by (simp add: verifiedPeers_of_def ex_cs ex_c excelIndustry_of_def example_summary_def
      ex_verify ex_verify_nocap non_null_def Let_def)

lemma ex_nocap_getPeers:
  "getPeers (example_provider [''DDD.NS'', ''AAA.NS'', ''EEE.NS'']) [] ''TGT.NS'' 83 =
     [\<lparr>slug = ''AAA.NS'', sector = ''Technology > IT'', marketCap = 5\<rparr>,
      \<lparr>slug = ''DDD.NS'', sector = ''Technology > IT'', marketCap = 0\<rparr>,
      \<lparr>slug = ''EEE.NS'', sector = ''Technology > IT'', marketCap = 0\<rparr>]"
  by (simp add: getPeers_ranked rankedPeers_of_def ex_nocap_v js_sort_def)

theorem missing_values_default_witness:
  "t_marketCap (targetData_of ''TGT.NS'' ''TGT'' NSE None example_metrics None
      (Some (example_financials None)) 80) = 0
   \<and> t_enterpriseValue (targetData_of ''TGT.NS'' ''TGT'' NSE None example_metrics None
      (Some (example_financials None)) 80) = 0
   \<and> t_pbRatio (targetData_of ''TGT.NS'' ''TGT'' NSE None example_metrics None
      (Some (example_financials None)) 80) = None
   \<and> getPeers (example_provider [''DDD.NS'', ''AAA.NS'', ''EEE.NS'']) [] ''TGT.NS'' 83 =
     [\<lparr>slug = ''AAA.NS'', sector = ''Technology > IT'', marketCap = 5\<rparr>,
      \<lparr>slug = ''DDD.NS'', sector = ''Technology > IT'', marketCap = 0\<rparr>,
      \<lparr>slug = ''EEE.NS'', sector = ''Technology > IT'', marketCap = 0\<rparr>]
   \<and> marketCap (getPeers (example_provider [''DDD.NS'', ''AAA.NS'', ''EEE.NS'']) []
        ''TGT.NS'' 83 ! 2) \<le> 0"
proof -
  let ?f = "Some (example_financials None)"
  let ?P = "example_provider [''DDD.NS'', ''AAA.NS'', ''EEE.NS'']"
  note t = missing_values_default [where fullTicker = "''TGT.NS''" and ticker = "''TGT''"
      and exch = NSE and period = None and m = example_metrics and quote = None
      and financials = ?f and fx = 80, unfolded Let_def]
  have h1: "Option.bind None q_marketCap = None" by simp
  have h2: "Option.bind (Option.bind ?f defaultKeyStatistics) ks_enterpriseValue = None"
    "Option.bind (Option.bind ?f defaultKeyStatistics) ks_priceToBook = None"
    by (simp_all add: example_financials_def)
  from t [THEN conjunct1, THEN conjunct1, rule_format, OF h1]
  have 1: "t_marketCap (targetData_of ''TGT.NS'' ''TGT'' NSE None example_metrics None ?f 80) = 0" .
  from t [THEN conjunct1, THEN conjunct2, THEN conjunct2, THEN conjunct1, rule_format, OF h2(1)]
  have 2: "t_enterpriseValue (targetData_of ''TGT.NS'' ''TGT'' NSE None example_metrics None ?f 80)
      = 0" .
  from t [THEN conjunct1, THEN conjunct2, THEN conjunct2, THEN conjunct2, THEN conjunct2,
      THEN conjunct2, THEN conjunct1]
  have 3: "t_pbRatio (targetData_of ''TGT.NS'' ''TGT'' NSE None example_metrics None ?f 80) = None"
    by (simp only: h2)
  have h3: "1 < (2 :: nat) \<and> 2 < length (getPeers ?P [] ''TGT.NS'' 83)
      \<and> marketCap (getPeers ?P [] ''TGT.NS'' 83 ! 1) = 0"
    by (simp add: ex_nocap_getPeers)
  from missing_values_default [where P = ?P and industryList = "[]"
      and fullTicker = "''TGT.NS''" and fx = 83, unfolded Let_def, THEN conjunct2,
      THEN conjunct2, THEN conjunct2, THEN conjunct1, rule_format, OF h3]
  have 4: "marketCap (getPeers ?P [] ''TGT.NS'' 83 ! 2) \<le> 0" .
  from 1 2 3 4 ex_nocap_getPeers show ?thesis by (intro conjI)
qed

subsection \<open>Failures of single fetches\<close>























end
